theory Spec2Isabelle
  imports Complex_Main "HOL-Library.Word"
begin

section \<open>Paths: the two functions of \<open>os.path\<close> the dumper calls\<close>

text \<open>
  The dumper touches paths only through \<open>os.path.splitext\<close> and \<open>os.path.join\<close>.
  Both are modelled after their POSIX implementation (\<open>posixpath\<close>, separator \<open>/\<close>,
  no alternative separator, extension separator \<open>.\<close>). A Python \<open>str\<close> is a
  \<open>string\<close> here.
\<close>

text \<open>\<open>str.rfind\<close> for a one-character needle: the highest index, or \<open>-1\<close>.\<close>

primrec rfind_aux :: "char \<Rightarrow> string \<Rightarrow> int \<Rightarrow> int \<Rightarrow> int" where
  "rfind_aux c [] i found = found"
| "rfind_aux c (x # xs) i found = rfind_aux c xs (i + 1) (if x = c then i else found)"

definition rfind :: "string \<Rightarrow> char \<Rightarrow> int" where
  "rfind p c = rfind_aux c p 0 (- 1)"

text \<open>
  The loop of \<open>genericpath._splitext\<close> that skips the leading dots of the last
  component: it returns at the first character before the last dot that is not a dot.
\<close>

function splitext_loop :: "string \<Rightarrow> nat \<Rightarrow> nat \<Rightarrow> string \<times> string" where
  "splitext_loop p filenameIndex dotIndex =
     (if filenameIndex < dotIndex then
        (if p ! filenameIndex \<noteq> CHR ''.'' then (take dotIndex p, drop dotIndex p)
         else splitext_loop p (Suc filenameIndex) dotIndex)
      else (p, []))"
  by pat_completeness auto
termination
  by (relation "measure (\<lambda>(p, filenameIndex, dotIndex). dotIndex - filenameIndex)") auto

declare splitext_loop.simps [simp del]

definition splitext :: "string \<Rightarrow> string \<times> string" where
  "splitext p =
     (let sepIndex = rfind p CHR ''/'';
          dotIndex = rfind p CHR ''.''
      in if dotIndex > sepIndex then splitext_loop p (nat (sepIndex + 1)) (nat dotIndex)
         else (p, []))"

text \<open>\<open>posixpath.join\<close>: an absolute later component discards what came before it.\<close>

definition join_step :: "string \<Rightarrow> string \<Rightarrow> string" where
  "join_step path b =
     (if b \<noteq> [] \<and> hd b = CHR ''/'' then b
      else if path = [] \<or> last path = CHR ''/'' then path @ b
      else path @ ''/'' @ b)"

definition path_join :: "string \<Rightarrow> string list \<Rightarrow> string" where
  "path_join a ps = foldl join_step a ps"

text \<open>
  What it means for a path to have an extension, said without the search: its last
  component holds a dot that comes after some character other than a dot.
\<close>

definition has_extension :: "string \<Rightarrow> bool" where
  "has_extension p \<longleftrightarrow>
     (\<exists>i j. i < j \<and> j < length p \<and> p ! j = CHR ''.'' \<and> p ! i \<noteq> CHR ''.''
        \<and> (\<forall>k. i \<le> k \<and> k < length p \<longrightarrow> p ! k \<noteq> CHR ''/''))"

section \<open>Numbers as text\<close>

text \<open>
  A Python \<open>float\<close> is modelled by the real number it denotes (NaN and the
  infinities are outside the model), and arithmetic on floats by the exact operation on
  reals. \<open>format_e prec x\<close> is Python's \<open>f"{x:.{prec}e}"\<close>: one digit, the point,
  \<open>prec\<close> digits, and an exponent of at least two digits; the mantissa is the exact
  value rounded to \<open>prec + 1\<close> significant digits, ties to even.
\<close>

definition digit_char :: "nat \<Rightarrow> char" where
  "digit_char n = ''0123456789'' ! n"

fun dec_digits :: "nat \<Rightarrow> string" where
  "dec_digits n =
     (if n < 10 then [digit_char n] else dec_digits (n div 10) @ [digit_char (n mod 10)])"

declare dec_digits.simps [simp del]

definition zero_pad :: "nat \<Rightarrow> string \<Rightarrow> string" where
  "zero_pad w s = replicate (w - length s) CHR ''0'' @ s"

text \<open>The decimal exponent \<open>e\<close> of a positive \<open>a\<close>: \<open>10 ^ e \<le> a < 10 ^ (e + 1)\<close>.\<close>

definition exponent10 :: "real \<Rightarrow> int" where
  "exponent10 a =
     (if a = 0 then 0
      else if 1 \<le> a then int (length (dec_digits (nat \<lfloor>a\<rfloor>))) - 1
      else - int (length (dec_digits (nat \<lceil>1 / a\<rceil> - 1))))"

definition round_half_even :: "real \<Rightarrow> int" where
  "round_half_even r =
     (if r - of_int \<lfloor>r\<rfloor> < 1 / 2 then \<lfloor>r\<rfloor>
      else if 1 / 2 < r - of_int \<lfloor>r\<rfloor> then \<lfloor>r\<rfloor> + 1
      else if even \<lfloor>r\<rfloor> then \<lfloor>r\<rfloor> else \<lfloor>r\<rfloor> + 1)"

definition scale10 :: "real \<Rightarrow> int \<Rightarrow> real" where
  "scale10 a k = (if 0 \<le> k then a * 10 ^ nat k else a / 10 ^ nat (- k))"

definition sci_mantissa :: "nat \<Rightarrow> real \<Rightarrow> int \<Rightarrow> nat" where
  "sci_mantissa prec a e = nat (round_half_even (scale10 a (int prec - e)))"

text \<open>Rounding up to the next power of ten moves the exponent.\<close>

definition sci_carry :: "nat \<Rightarrow> nat \<Rightarrow> int \<Rightarrow> nat \<times> int" where
  "sci_carry prec m e = (if 10 ^ (prec + 1) \<le> m then (m div 10, e + 1) else (m, e))"

definition render_mantissa :: "nat \<Rightarrow> string \<Rightarrow> string" where
  "render_mantissa prec ds = hd ds # (if prec = 0 then [] else CHR ''.'' # tl ds)"

definition render_exponent :: "int \<Rightarrow> string" where
  "render_exponent e =
     CHR ''e'' # (if e < 0 then CHR ''-'' else CHR ''+'') # zero_pad 2 (dec_digits (nat \<bar>e\<bar>))"

definition sci_render :: "nat \<Rightarrow> bool \<Rightarrow> nat \<times> int \<Rightarrow> string" where
  "sci_render prec neg me =
     (if neg then ''-'' else []) @ render_mantissa prec (zero_pad (prec + 1) (dec_digits (fst me)))
       @ render_exponent (snd me)"

definition format_e :: "nat \<Rightarrow> real \<Rightarrow> string" where
  "format_e prec x =
     sci_render prec (x < 0)
       (sci_carry prec (sci_mantissa prec \<bar>x\<bar> (exponent10 \<bar>x\<bar>)) (exponent10 \<bar>x\<bar>))"

text \<open>\<open>sep.join(parts)\<close>.\<close>

fun str_join :: "string \<Rightarrow> string list \<Rightarrow> string" where
  "str_join sep [] = []"
| "str_join sep [s] = s"
| "str_join sep (s # t # ts) = s @ sep @ str_join sep (t # ts)"

section \<open>Arrays and transforms\<close>

text \<open>
  A \<open>Transform\<close> is its 4\<times>4 homogeneous matrix, read by row and column (both below
  4). The arrays the dumper builds itself are lists of rows.
\<close>

type_synonym matrix = "nat \<Rightarrow> nat \<Rightarrow> real"

text \<open>\<open>m[:3, :]\<close>, \<open>m[:3, :3]\<close> and \<open>m[:3, -1].reshape(3, 1)\<close> of a 4\<times>4 matrix.\<close>

definition top_rows :: "matrix \<Rightarrow> real list list" where
  "top_rows m = map (\<lambda>i. map (m i) [0, 1, 2, 3]) [0, 1, 2]"



definition np_identity :: "nat \<Rightarrow> real list list" where
  "np_identity n = map (\<lambda>i. map (\<lambda>j. if i = j then 1 else 0) [0..<n]) [0..<n]"

definition set_item :: "real list list \<Rightarrow> nat \<Rightarrow> nat \<Rightarrow> real \<Rightarrow> real list list" where
  "set_item a i j v = a[i := (a ! i)[j := v]]"



definition compute_intrinsic_matrix :: "int \<Rightarrow> int \<Rightarrow> real \<Rightarrow> real list list" where
  "compute_intrinsic_matrix w h fov =
     (let focal = of_int w / (2 * tan (fov * pi / 360));
          K = np_identity 3;
          K = set_item K 0 0 focal;
          K = set_item K 1 1 focal;
          K = set_item K 0 2 (of_int w / 2);
          K = set_item K 1 2 (of_int h / 2);
          K = set_item K 2 2 1
      in K)"


section \<open>What the dumper consumes from outside\<close>

text \<open>
  The geometry classes (\<open>Coordinate\<close>, \<open>CoordConverter\<close>) live in another package
  and are parameters of the model, as are the rounding of \<open>np.float32\<close> and the order
  in which Python enumerates a \<open>set\<close> of sensors:
  \<^item> \<open>change_orientation o m\<close> is the matrix of
    \<open>Coordinate(t).change_orientation(o)\<close> for the transform with matrix \<open>m\<close>;
  \<^item> \<open>apply_transform c m\<close> is the matrix of
    \<open>c.apply_transform(Transform(matrix=m))\<close> for the coordinate with matrix \<open>c\<close>;
  \<^item> \<open>from_system ps\<close> is \<open>CoordConverter.from_system(*ps).get_list()\<close>;
  \<^item> \<open>set_order xs\<close> is \<open>list(set(xs))\<close>.
\<close>

datatype orientation =
    CARLA_CAM_TO_KITTI_CAM_ORIENTATION
  | LEFT_HANDED_TO_RIGHT_HANDED_ORIENTATION

record collaborators =
  change_orientation :: "orientation \<Rightarrow> matrix \<Rightarrow> matrix"
  apply_transform :: "matrix \<Rightarrow> matrix \<Rightarrow> matrix"
  from_system :: "(real \<times> real \<times> real) list \<Rightarrow> (real \<times> real \<times> real) list"
  float32 :: "real \<Rightarrow> real"
  set_order :: "nat list \<Rightarrow> nat list"

text \<open>
  A row of the semantic lidar's content array: position, semantic class id, instance
  id. The ids are integers; the declaration of the sample is outside the file.
\<close>

record lidar_row =
  pos_x :: real
  pos_y :: real
  pos_z :: real
  semantic_id :: int
  instance_id :: int

text \<open>
  A sensor's latest sample. \<open>content\<close> is an image for a camera and a point array for
  a lidar; the model keeps the two readings apart.
\<close>

record sample =
  timestamp :: real
  frame :: nat
  transform :: matrix
  content_image :: "nat list list"
  content_points :: "lidar_row list"

text \<open>A camera's attributes, after \<open>int(...)\<close> and \<open>float(...)\<close>.\<close>

record camera_attributes =
  image_size_x :: int
  image_size_y :: int
  fov :: real

record sensor_view =
  data :: sample
  attributes :: camera_attributes

text \<open>What every sensor shows once it has signalled \<open>on_data_ready\<close> in one cycle.\<close>

type_synonym world = "nat \<Rightarrow> sensor_view"

section \<open>Binds, files and the dumper's state\<close>

text \<open>
  A sensor is known to the dumper only by its identity (\<open>bind.actor != cam_0\<close>), its
  latest sample and its attributes; the identity is a number here.
\<close>

type_synonym sensor = nat

datatype bind =
    SemanticLidarBind sensor string string
  | TimestampBind sensor string
  | PoseBind sensor string
  | CameraBind sensor string
  | CalibTrBind sensor string

fun actor :: "bind \<Rightarrow> sensor" where
  "actor (SemanticLidarBind a d l) = a"
| "actor (TimestampBind a d) = a"
| "actor (PoseBind a d) = a"
| "actor (CameraBind a d) = a"
| "actor (CalibTrBind a d) = a"

fun data_path :: "bind \<Rightarrow> string" where
  "data_path (SemanticLidarBind a d l) = d"
| "data_path (TimestampBind a d) = d"
| "data_path (PoseBind a d) = d"
| "data_path (CameraBind a d) = d"
| "data_path (CalibTrBind a d) = d"

fun is_CalibTrBind :: "bind \<Rightarrow> bool" where
  "is_CalibTrBind (CalibTrBind a d) = True"
| "is_CalibTrBind b = False"

fun is_PoseBind :: "bind \<Rightarrow> bool" where
  "is_PoseBind (PoseBind a d) = True"
| "is_PoseBind b = False"



datatype error =
    ValueError string
  | TypeError
  | AttributeError

text \<open>The export tasks handed to the thread pool, each with its arguments.\<close>

datatype task =
    Dump_semantic_lidar bind
  | Dump_image bind
  | Dump_timestamp bind
  | Dump_pose bind
  | Dump_calib bind bind

text \<open>
  What is on disk under a path: a folder, a text file, or one of the three binary
  artifacts (float32 rows, uint16 rows, an image). Calls to the file system are taken
  to succeed.
\<close>

datatype node =
    Folder
  | TextFile string
  | Float32File "real list list"
  | UInt16File "16 word list list"
  | ImageFile "nat list list"

text \<open>
  The dumper object. The base class \<open>DatasetDumper\<close> is not part of the file under
  study; its property \<open>binds\<close> is taken to hand out the list \<open>_binds\<close> itself, so
  that \<open>self.binds.append\<close> and \<open>self._binds.append\<close> are the same operation.
  \<open>promises\<close> holds the tasks submitted for the current frame, in submission order.
\<close>

record dumper =
  binds :: "bind list"
  current_frame_count :: nat
  current_sequence_path :: string
  timestamp_offset :: "real option"
  pose_offset :: "matrix option"
  pose_offset_coordinate :: "matrix option"
  promises :: "task list"
  disk :: "string \<rightharpoonup> node"

text \<open>\<open>f'{self._current_frame_count:06d}'\<close>.\<close>

definition current_frame_name :: "dumper \<Rightarrow> string" where
  "current_frame_name self = zero_pad 6 (dec_digits (current_frame_count self))"



text \<open>\<open>open(p, 'a')\<close> followed by \<open>write(s)\<close>: the file is created when it is not there.\<close>

definition read_text :: "(string \<rightharpoonup> node) \<Rightarrow> string \<Rightarrow> string" where
  "read_text d p = (case d p of Some (TextFile t) \<Rightarrow> t | _ \<Rightarrow> [])"

definition append_text :: "string \<Rightarrow> string \<Rightarrow> (string \<rightharpoonup> node) \<Rightarrow> (string \<rightharpoonup> node)" where
  "append_text p s d = d(p \<mapsto> TextFile (read_text d p @ s))"

section \<open>Registration\<close>

text \<open>
  A method that may raise returns the exception, if any, together with the object as
  the raise left it.
\<close>

definition not_a_file :: "string \<Rightarrow> error" where
  "not_a_file file_path = ValueError (''Path '' @ file_path @ '' is a folder, not a file.'')"



definition bind_timestamp :: "sensor \<Rightarrow> string \<Rightarrow> dumper \<Rightarrow> error option \<times> dumper" where
  "bind_timestamp sensor file_path self =
     (if snd (splitext file_path) = [] then (Some (not_a_file file_path), self)
      else (None, self\<lparr>binds := binds self @ [TimestampBind sensor file_path]\<rparr>))"

definition bind_pose :: "sensor \<Rightarrow> string \<Rightarrow> dumper \<Rightarrow> error option \<times> dumper" where
  "bind_pose sensor file_path self =
     (if snd (splitext file_path) = [] then (Some (not_a_file file_path), self)
      else (None, self\<lparr>binds := binds self @ [PoseBind sensor file_path]\<rparr>))"

definition bind_calib :: "sensor \<Rightarrow> string \<Rightarrow> dumper \<Rightarrow> error option \<times> dumper" where
  "bind_calib tr_sensor file_path self =
     (if snd (splitext file_path) = [] then (Some (not_a_file file_path), self)
      else (None, self\<lparr>binds := binds self @ [CalibTrBind tr_sensor file_path]\<rparr>))"

section \<open>Sequence and frame set-up\<close>



definition setup_calib_file :: "dumper \<Rightarrow> error option \<times> dumper" where
  "setup_calib_file self =
     (case (find is_CalibTrBind (binds self), find is_PoseBind (binds self)) of
        (Some calib_bind, Some pose_bind) \<Rightarrow>
          (None, self\<lparr>promises := promises self @ [Dump_calib calib_bind pose_bind]\<rparr>)
      | _ \<Rightarrow> (Some (ValueError ''Calib bind or pose bind not found''), self))"

text \<open>The \<open>isinstance\<close> chain of \<open>create_frame\<close>: a calibration bind gets no task.\<close>

fun frame_tasks :: "bind \<Rightarrow> task list" where
  "frame_tasks (SemanticLidarBind a d l) = [Dump_semantic_lidar (SemanticLidarBind a d l)]"
| "frame_tasks (CameraBind a d) = [Dump_image (CameraBind a d)]"
| "frame_tasks (TimestampBind a d) = [Dump_timestamp (TimestampBind a d)]"
| "frame_tasks (PoseBind a d) = [Dump_pose (PoseBind a d)]"
| "frame_tasks (CalibTrBind a d) = []"

definition submit_binds :: "dumper \<Rightarrow> dumper" where
  "submit_binds self = self\<lparr>promises := promises self @ concat (map frame_tasks (binds self))\<rparr>"

definition create_frame :: "dumper \<Rightarrow> error option \<times> dumper" where
  "create_frame self =
     (let self = self\<lparr>current_frame_count := current_frame_count self + 1, promises := []\<rparr>
      in if current_frame_count self = 1 then
           (case setup_calib_file (self\<lparr>timestamp_offset := None, pose_offset := None\<rparr>) of
              (Some e, self) \<Rightarrow> (Some e, self)
            | (None, self) \<Rightarrow> (None, submit_binds self))
         else (None, submit_binds self))"

section \<open>The export tasks\<close>

definition MAPPING_SEG_CARLA_TO_KITTI :: "(int \<times> int) list" where
  "MAPPING_SEG_CARLA_TO_KITTI =
     [(1, 40), (2, 48), (3, 50), (4, 52), (5, 51), (6, 80), (7, 99), (8, 81), (9, 70),
      (10, 72), (11, 0), (12, 30), (13, 31), (14, 10), (15, 18), (16, 13), (17, 16),
      (18, 15), (19, 11), (20, 20), (21, 259), (22, 99), (23, 49), (24, 60), (25, 49),
      (26, 52), (27, 49), (28, 51), (29, 60), (30, 44)]"

text \<open>\<open>MAPPING_SEG_CARLA_TO_KITTI.get\<close>: \<open>None\<close> for a key that is not in the table.\<close>

definition mapping_get :: "int \<Rightarrow> int option" where
  "mapping_get k = map_of MAPPING_SEG_CARLA_TO_KITTI k"

text \<open>
  \<open>np.vectorize(f)(a)\<close> without \<open>otypes\<close>: an empty input is refused; the type of the
  result array is taken from \<open>f\<close> on the first element, so it is an integer array
  when that is an integer, and then a later \<open>None\<close> cannot be stored in it; when the
  first result is \<open>None\<close> the array holds objects.
\<close>

datatype np_array =
    IntArray "int list"
  | ObjectArray "int option list"

definition np_vectorize :: "(int \<Rightarrow> int option) \<Rightarrow> int list \<Rightarrow> error + np_array" where
  "np_vectorize f a =
     (if a = [] then
        Inl (ValueError ''cannot call `vectorize` on size 0 inputs unless `otypes` is set'')
      else case f (hd a) of
          None \<Rightarrow> Inr (ObjectArray (map f a))
        | Some v \<Rightarrow> (case those (map f a) of None \<Rightarrow> Inl TypeError
                                          | Some vs \<Rightarrow> Inr (IntArray vs)))"

text \<open>
  \<open>astype(np.uint16)\<close>: an integer is reduced modulo \<open>2 ^ 16\<close>, \<open>None\<close> is no
  number.
\<close>

definition uint16_of_int :: "int \<Rightarrow> 16 word" where
  "uint16_of_int v = word_of_int v"

fun astype_uint16 :: "np_array \<Rightarrow> error + 16 word list" where
  "astype_uint16 (IntArray vs) = Inr (map uint16_of_int vs)"
| "astype_uint16 (ObjectArray os) =
     (case those os of None \<Rightarrow> Inl TypeError | Some vs \<Rightarrow> Inr (map uint16_of_int vs))"

text \<open>\<open>np.column_stack\<close> of two one-dimensional arrays of one length.\<close>

definition column_stack :: "'a list \<Rightarrow> 'a list \<Rightarrow> 'a list list" where
  "column_stack a b = map2 (\<lambda>u v. [u, v]) a b"


fun labels_path :: "bind \<Rightarrow> string" where
  "labels_path (SemanticLidarBind a d l) = l"
| "labels_path b = []"

definition dump_semantic_lidar ::
  "collaborators \<Rightarrow> world \<Rightarrow> dumper \<Rightarrow> bind \<Rightarrow> error option \<times> dumper" where
  "dump_semantic_lidar env w self b =
     (let file_name = current_frame_name self;
          path_data = path_join (current_sequence_path self) [data_path b, file_name @ ''.bin''];
          path_labels = path_join (current_sequence_path self) [labels_path b, file_name @ ''.label''];
          rows = content_points (data (w (actor b)));
          points = map (\<lambda>r. (pos_x r, - pos_y r, pos_z r)) rows;
          points = from_system env points;
          points = map (\<lambda>(x, y, z). map (float32 env) [x, y, z, 1]) points
      in case np_vectorize mapping_get (map semantic_id rows) of
           Inl e \<Rightarrow> (Some e, self)
         | Inr seg \<Rightarrow>
            (case astype_uint16 seg of
               Inl e \<Rightarrow> (Some e, self)
             | Inr seg16 \<Rightarrow>
                (let labels = column_stack seg16 (map (uint16_of_int \<circ> instance_id) rows)
                 in (None, self\<lparr>disk := ((disk self)(path_data \<mapsto> Float32File points))
                                           (path_labels \<mapsto> UInt16File labels)\<rparr>))))"


text \<open>The twelve values of a 3\<times>4 matrix on one line.\<close>

definition matrix_line :: "nat \<Rightarrow> real list list \<Rightarrow> string" where
  "matrix_line prec rows = str_join '' '' (map (format_e prec) (concat rows))"

definition dump_pose :: "collaborators \<Rightarrow> world \<Rightarrow> dumper \<Rightarrow> bind \<Rightarrow> error option \<times> dumper" where
  "dump_pose env w self b =
     (let path = path_join (current_sequence_path self) [data_path b];
          pose = transform (data (w (actor b)));
          self = (if pose_offset self = None
                  then self\<lparr>pose_offset := Some pose,
                            pose_offset_coordinate :=
                              Some (change_orientation env CARLA_CAM_TO_KITTI_CAM_ORIENTATION pose)\<rparr>
                  else self)
      in case pose_offset_coordinate self of
           None \<Rightarrow> (Some AttributeError, self)
         | Some origin \<Rightarrow>
            (let cami_on_cam0 =
                   apply_transform env
                     (change_orientation env CARLA_CAM_TO_KITTI_CAM_ORIENTATION pose) origin;
                 pose_matrix = matrix_line 6 (top_rows cami_on_cam0)
             in (None, self\<lparr>disk := append_text path (pose_matrix @ [CHR 0x0A]) (disk self)\<rparr>)))"






section \<open>Running a frame\<close>







text \<open>
  The dumper as \<open>__init__\<close> and the base class's \<open>create_sequence\<close> leave it, for
  a sequence stored under \<open>seq\<close>: nothing bound, no frame yet, nothing on disk.
\<close>

definition new_dumper :: "string \<Rightarrow> dumper" where
  "new_dumper seq =
     \<lparr>binds = [], current_frame_count = 0, current_sequence_path = seq,
      timestamp_offset = None, pose_offset = None, pose_offset_coordinate = None,
      promises = [], disk = Map.empty\<rparr>"

text \<open>
  Stand-ins used where a statement is run on a concrete input: collaborators that leave
  matrices and points as they are and enumerate a set in the order of first occurrence,
  and a sensor view with a given timestamp and point rows, the identity transform and
  a 1280\<times>720 camera with a field of view of 90 degrees.
\<close>

definition plain_collaborators :: collaborators where
  "plain_collaborators =
     \<lparr>change_orientation = (\<lambda>ori m. m), apply_transform = (\<lambda>c m. c),
      from_system = (\<lambda>ps. ps), float32 = (\<lambda>v. v), set_order = remdups\<rparr>"

definition identity_matrix :: matrix where
  "identity_matrix = (\<lambda>i j. if i = j then 1 else 0)"

definition plain_view :: "real \<Rightarrow> lidar_row list \<Rightarrow> sensor_view" where
  "plain_view t rows =
     \<lparr>data = \<lparr>timestamp = t, frame = 1, transform = identity_matrix, content_image = [],
               content_points = rows\<rparr>,
      attributes = \<lparr>image_size_x = 1280, image_size_y = 720, fov = 90\<rparr>\<rparr>"

definition lidar_point :: "int \<Rightarrow> int \<Rightarrow> lidar_row" where
  "lidar_point seg oid = \<lparr>pos_x = 1, pos_y = 2, pos_z = 3, semantic_id = seg, instance_id = oid\<rparr>"

section \<open>Evaluation rules\<close>

lemma splitext_loop_stop:
  "\<not> filenameIndex < dotIndex \<Longrightarrow> splitext_loop p filenameIndex dotIndex = (p, [])"
  by (simp add: splitext_loop.simps)

lemma splitext_loop_found:
  "filenameIndex < dotIndex \<Longrightarrow> p ! filenameIndex \<noteq> CHR ''.'' \<Longrightarrow>
     splitext_loop p filenameIndex dotIndex = (take dotIndex p, drop dotIndex p)"
  by (simp add: splitext_loop.simps)

lemma splitext_loop_skip:
  "filenameIndex < dotIndex \<Longrightarrow> p ! filenameIndex = CHR ''.'' \<Longrightarrow>
     splitext_loop p filenameIndex dotIndex = splitext_loop p (Suc filenameIndex) dotIndex"
  by (subst splitext_loop.simps) simp

lemmas splitext_eval =
  splitext_def rfind_def splitext_loop_stop splitext_loop_found splitext_loop_skip

lemma dec_digits_small: "n < 10 \<Longrightarrow> dec_digits n = [digit_char n]"
  by (simp add: dec_digits.simps)


lemma replicate_numeral: "replicate (numeral k) x = x # replicate (pred_numeral k) x"
  by (simp add: numeral_eq_Suc)


section \<open>Registration rejects a file path without an extension\<close>

text \<open>The search of \<open>os.path.splitext\<close> finds an extension exactly in the paths that have one.\<close>

lemma rfind_aux_absent: "c \<notin> set p \<Longrightarrow> rfind_aux c p i f = f"
  by (induction p arbitrary: i f) auto

lemma rfind_aux_present:
  "c \<in> set p \<Longrightarrow>
     \<exists>k<length p. rfind_aux c p i f = i + int k \<and> p ! k = c
        \<and> (\<forall>m. k < m \<and> m < length p \<longrightarrow> p ! m \<noteq> c)"
proof (induction p arbitrary: i f)
  case Nil
  then show ?case by simp
next
  case (Cons x xs)
  show ?case
  proof (cases "c \<in> set xs")
    case True
    from Cons.IH [OF True, of "i + 1" "if x = c then i else f"]
    obtain k where k: "k < length xs"
      "rfind_aux c xs (i + 1) (if x = c then i else f) = i + 1 + int k" "xs ! k = c"
      "\<forall>m. k < m \<and> m < length xs \<longrightarrow> xs ! m \<noteq> c"
      by blast
    have "\<forall>m. Suc k < m \<and> m < length (x # xs) \<longrightarrow> (x # xs) ! m \<noteq> c"
    proof (intro allI impI)
      fix m assume "Suc k < m \<and> m < length (x # xs)"
      then obtain m' where "m = Suc m'" "k < m'" "m' < length xs"
        by (cases m) auto
      with k(4) show "(x # xs) ! m \<noteq> c" by simp
    qed
    with k show ?thesis
      by (intro exI [of _ "Suc k"]) simp
  next
    case False
    with Cons.prems have xc: "x = c" by simp
    have "\<forall>m. 0 < m \<and> m < length (x # xs) \<longrightarrow> (x # xs) ! m \<noteq> c"
    proof (intro allI impI)
      fix m assume "0 < m \<and> m < length (x # xs)"
      then obtain m' where "m = Suc m'" "m' < length xs" by (cases m) auto
      with False show "(x # xs) ! m \<noteq> c" by (auto simp: in_set_conv_nth)
    qed
    with xc False show ?thesis
      by (intro exI [of _ 0]) (simp add: rfind_aux_absent)
  qed
qed

lemma rfind_cases:
  obtains (absent) "c \<notin> set p" "rfind p c = - 1"
  | (present) k where "k < length p" "rfind p c = int k" "p ! k = c"
      "\<forall>m. k < m \<and> m < length p \<longrightarrow> p ! m \<noteq> c"
proof (cases "c \<in> set p")
  case False
  then show ?thesis using absent by (simp add: rfind_def rfind_aux_absent)
next
  case True
  from rfind_aux_present [OF True, of 0 "- 1"] show ?thesis
    using present by (auto simp: rfind_def)
qed

lemma splitext_loop_ext:
  "di < length p \<Longrightarrow>
     snd (splitext_loop p fi di) \<noteq> [] \<longleftrightarrow> (\<exists>i. fi \<le> i \<and> i < di \<and> p ! i \<noteq> CHR ''.'')"
proof (induction p fi di rule: splitext_loop.induct)
  case (1 p fi di)
  show ?case
  proof (cases "fi < di")
    case False
    then show ?thesis by (subst splitext_loop.simps) auto
  next
    case True
    show ?thesis
    proof (cases "p ! fi \<noteq> CHR ''.''")
      case nd: True
      with True "1.prems" show ?thesis
        by (subst splitext_loop.simps) auto
    next
      case d: False
      from "1.IH" [OF True _ "1.prems"] d
      have "snd (splitext_loop p (Suc fi) di) \<noteq> [] \<longleftrightarrow>
              (\<exists>i. Suc fi \<le> i \<and> i < di \<and> p ! i \<noteq> CHR ''.'')"
        by simp
      moreover have "(\<exists>i. Suc fi \<le> i \<and> i < di \<and> p ! i \<noteq> CHR ''.'')
                      \<longleftrightarrow> (\<exists>i. fi \<le> i \<and> i < di \<and> p ! i \<noteq> CHR ''.'')"
        using d by (metis Suc_leD Suc_leI le_neq_implies_less)
      ultimately show ?thesis
        using True d by (subst splitext_loop.simps) simp
    qed
  qed
qed

lemma splitext_has_extension: "snd (splitext p) \<noteq> [] \<longleftrightarrow> has_extension p"
proof (cases rule: rfind_cases [of "CHR ''.''" p])
  case absent
  have "\<not> has_extension p"
    using absent(1) by (auto simp: has_extension_def in_set_conv_nth)
  moreover have "snd (splitext p) = []"
  proof (cases rule: rfind_cases [of "CHR ''/''" p])
    case absent
    then show ?thesis using \<open>rfind p CHR ''.'' = - 1\<close> by (simp add: splitext_def)
  next
    case (present k)
    then show ?thesis using \<open>rfind p CHR ''.'' = - 1\<close> by (simp add: splitext_def)
  qed
  ultimately show ?thesis by simp
next
  case (present jd)
  note dot = present
  show ?thesis
  proof (cases rule: rfind_cases [of "CHR ''/''" p])
    case absent
    have "snd (splitext p) \<noteq> [] \<longleftrightarrow> (\<exists>i. i < jd \<and> p ! i \<noteq> CHR ''.'')"
      using dot absent splitext_loop_ext [of jd p 0] by (simp add: splitext_def)
    also have "\<dots> \<longleftrightarrow> has_extension p"
    proof
      assume "\<exists>i. i < jd \<and> p ! i \<noteq> CHR ''.''"
      then obtain i where "i < jd" "p ! i \<noteq> CHR ''.''" by blast
      with dot absent(1) show "has_extension p"
        unfolding has_extension_def
        by (intro exI [of _ i] exI [of _ jd]) (auto simp: in_set_conv_nth)
    next
      assume "has_extension p"
      then obtain i j where ij: "i < j" "j < length p" "p ! j = CHR ''.''" "p ! i \<noteq> CHR ''.''"
        unfolding has_extension_def by blast
      with dot(4) have "j \<le> jd" by (meson not_le_imp_less)
      with ij show "\<exists>i. i < jd \<and> p ! i \<noteq> CHR ''.''" by (intro exI [of _ i]) simp
    qed
    finally show ?thesis .
  next
    case (present ks)
    note sep = present
    have neq: "ks \<noteq> jd" using sep(3) dot(3) by auto
    show ?thesis
    proof (cases "ks < jd")
      case False
      with neq have gt: "jd < ks" by simp
      then have "snd (splitext p) = []"
        using dot sep by (simp add: splitext_def)
      moreover have "\<not> has_extension p"
      proof
        assume "has_extension p"
        then obtain i j where ij: "i < j" "j < length p" "p ! j = CHR ''.''"
          "\<forall>k. i \<le> k \<and> k < length p \<longrightarrow> p ! k \<noteq> CHR ''/''"
          unfolding has_extension_def by blast
        with dot(4) have "j \<le> jd" by (meson not_le_imp_less)
        with ij(1) gt have "i \<le> ks" by simp
        with ij(4) sep show False by blast
      qed
      ultimately show ?thesis by simp
    next
      case True
      have "snd (splitext p) \<noteq> [] \<longleftrightarrow> (\<exists>i. Suc ks \<le> i \<and> i < jd \<and> p ! i \<noteq> CHR ''.'')"
        using dot sep True splitext_loop_ext [of jd p "Suc ks"]
        by (simp add: splitext_def nat_add_distrib)
      also have "\<dots> \<longleftrightarrow> has_extension p"
      proof
        assume "\<exists>i. Suc ks \<le> i \<and> i < jd \<and> p ! i \<noteq> CHR ''.''"
        then obtain i where i: "Suc ks \<le> i" "i < jd" "p ! i \<noteq> CHR ''.''" by blast
        have "\<forall>k. i \<le> k \<and> k < length p \<longrightarrow> p ! k \<noteq> CHR ''/''"
          using sep(4) i(1) by auto
        with i dot show "has_extension p"
          unfolding has_extension_def by (intro exI [of _ i] exI [of _ jd]) simp
      next
        assume "has_extension p"
        then obtain i j where ij: "i < j" "j < length p" "p ! j = CHR ''.''" "p ! i \<noteq> CHR ''.''"
          "\<forall>k. i \<le> k \<and> k < length p \<longrightarrow> p ! k \<noteq> CHR ''/''"
          unfolding has_extension_def by blast
        with dot(4) have "j \<le> jd" by (meson not_le_imp_less)
        moreover have "ks < i"
        proof (rule ccontr)
          assume "\<not> ks < i"
          then have "i \<le> ks" by simp
          with ij(5) sep show False by blast
        qed
        ultimately show "\<exists>i. Suc ks \<le> i \<and> i < jd \<and> p ! i \<noteq> CHR ''.''"
          using ij by (intro exI [of _ i]) simp
      qed
      finally show ?thesis .
    qed
  qed
qed

text \<open>
  C7. \<open>bind_timestamp\<close>, \<open>bind_pose\<close> and \<open>bind_calib\<close> raise a configuration error
  and register nothing when the file path has no extension; when it has one they raise
  nothing and append exactly the new bind to the registry.
\<close>

theorem bind_file_path_extension:
  "(\<not> has_extension file_path \<longrightarrow>
      bind_timestamp sensor file_path self = (Some (not_a_file file_path), self)
    \<and> bind_pose sensor file_path self = (Some (not_a_file file_path), self)
    \<and> bind_calib sensor file_path self = (Some (not_a_file file_path), self))
 \<and> (has_extension file_path \<longrightarrow>
      bind_timestamp sensor file_path self
        = (None, self\<lparr>binds := binds self @ [TimestampBind sensor file_path]\<rparr>)
    \<and> bind_pose sensor file_path self
        = (None, self\<lparr>binds := binds self @ [PoseBind sensor file_path]\<rparr>)
    \<and> bind_calib sensor file_path self
        = (None, self\<lparr>binds := binds self @ [CalibTrBind sensor file_path]\<rparr>))"
  using splitext_has_extension [of file_path]
  by (auto simp: bind_timestamp_def bind_pose_def bind_calib_def)

theorem bind_file_path_extension_witness:
  "\<not> has_extension ''timestamps''
   \<and> bind_timestamp 7 ''timestamps'' (new_dumper ''seq'')
       = (Some (ValueError ''Path timestamps is a folder, not a file.''), new_dumper ''seq'')
   \<and> has_extension ''timestamps.txt''
   \<and> fst (bind_timestamp 7 ''timestamps.txt'' (new_dumper ''seq'')) = None
   \<and> binds (snd (bind_timestamp 7 ''timestamps.txt'' (new_dumper ''seq'')))
       = [TimestampBind 7 ''timestamps.txt'']"
proof -
  have a: "\<not> has_extension ''timestamps''"
    unfolding splitext_has_extension [symmetric] by (simp add: splitext_eval)
  have b: "has_extension ''timestamps.txt''"
    unfolding splitext_has_extension [symmetric] by (simp add: splitext_eval)
  from bind_file_path_extension [of "''timestamps''" 7 "new_dumper ''seq''"]
       bind_file_path_extension [of "''timestamps.txt''" 7 "new_dumper ''seq''"] a b
  show ?thesis
    by (simp add: not_a_file_def new_dumper_def)
qed

section \<open>Labels\<close>

lemma those_None_iff: "those xs = None \<longleftrightarrow> None \<in> set xs"
  by (induction xs) (auto split: option.splits)

lemma label_cast_of_absent:
  assumes "k \<in> set a" and "f k = None"
  shows "(case np_vectorize f a of Inl e \<Rightarrow> Some e | Inr seg \<Rightarrow>
            (case astype_uint16 seg of Inl e \<Rightarrow> Some e | Inr v \<Rightarrow> None)) = Some TypeError"
proof -
  from assms have ne: "a \<noteq> []" by auto
  from assms have "None \<in> set (map f a)" by force
  then have th: "those (map f a) = None" by (simp add: those_None_iff)
  show ?thesis
    using ne th by (cases "f (hd a)") (simp_all add: np_vectorize_def)
qed

lemma label_cast_of_present:
  assumes "a \<noteq> []" and "\<forall>k\<in>set a. f k \<noteq> None"
  shows "np_vectorize f a = Inr (IntArray (map (the \<circ> f) a))"
proof -
  from assms(2) have "those (map f a) = Some (map (the \<circ> f) a)"
    by (induction a) auto
  moreover from assms obtain v where "f (hd a) = Some v" by (cases a) auto
  ultimately show ?thesis using assms(1) by (simp add: np_vectorize_def)
qed

lemma column_stack_map: "column_stack (map f xs) (map g xs) = map (\<lambda>x. [f x, g x]) xs"
  by (induction xs) (simp_all add: column_stack_def)

lemma uint_uint16_of_int: "uint (uint16_of_int v) = v mod 65536"
  by (simp add: uint16_of_int_def uint_word_of_int)

text \<open>
  C4. When a row of the lidar sample carries a semantic class id that is not a key of
  the remap table, the lidar task ends with an exception and leaves the dumper and the
  disk as they were: no label file (and no point file) is written for the frame, with
  no class id put in place of the missing one.
\<close>

theorem absent_semantic_id_fails_label_export:
  assumes "r \<in> set (content_points (data (w (actor b))))"
      and "mapping_get (semantic_id r) = None"
  shows "dump_semantic_lidar env w self b = (Some TypeError, self)"
proof -
  let ?a = "map semantic_id (content_points (data (w (actor b))))"
  from assms have "semantic_id r \<in> set ?a" by simp
  from label_cast_of_absent [of "semantic_id r" ?a mapping_get, OF this assms(2)]
  show ?thesis
    by (auto simp: dump_semantic_lidar_def Let_def split: sum.splits)
qed

theorem absent_semantic_id_fails_label_export_witness:
  "lidar_point 31 5 \<in> set (content_points (data
       ((\<lambda>s. plain_view 0 [lidar_point 1 5, lidar_point 31 5])
          (actor (SemanticLidarBind 3 ''velodyne'' ''labels'')))))
   \<and> mapping_get (semantic_id (lidar_point 31 5)) = None
   \<and> dump_semantic_lidar plain_collaborators
        (\<lambda>s. plain_view 0 [lidar_point 1 5, lidar_point 31 5])
        (new_dumper ''seq'') (SemanticLidarBind 3 ''velodyne'' ''labels'')
      = (Some TypeError, new_dumper ''seq'')"
proof -
  have a: "lidar_point 31 5 \<in> set (content_points (data
       ((\<lambda>s. plain_view 0 [lidar_point 1 5, lidar_point 31 5])
          (actor (SemanticLidarBind 3 ''velodyne'' ''labels'')))))"
    by (simp add: plain_view_def)
  have b: "mapping_get (semantic_id (lidar_point 31 5)) = None"
    by (simp add: mapping_get_def MAPPING_SEG_CARLA_TO_KITTI_def lidar_point_def)
  from absent_semantic_id_fails_label_export [OF a b] a b show ?thesis
    by blast
qed

text \<open>
  C10. When every semantic id of the sample is in the table, the label file of the
  frame holds, row by row, the remapped semantic id and the instance id, each cast to
  uint16: the cast keeps the value modulo \<open>2 ^ 16\<close> (65536 becomes 0), so an id from
  0 to 65535 is written as it is; the instance id does not go through the table.
\<close>

theorem label_rows_are_uint16_casts:
  assumes "content_points (data (w (actor b))) \<noteq> []"
      and "\<forall>r\<in>set (content_points (data (w (actor b)))). mapping_get (semantic_id r) \<noteq> None"
  shows "fst (dump_semantic_lidar env w self b) = None
     \<and> disk (snd (dump_semantic_lidar env w self b))
         (path_join (current_sequence_path self)
            [labels_path b, current_frame_name self @ ''.label''])
       = Some (UInt16File
           (map (\<lambda>r. [uint16_of_int (the (mapping_get (semantic_id r))),
                       uint16_of_int (instance_id r)])
              (content_points (data (w (actor b))))))
     \<and> (\<forall>v. uint (uint16_of_int v) = v mod 2 ^ 16)
     \<and> (\<forall>v. 0 \<le> v \<and> v < 2 ^ 16 \<longrightarrow> uint (uint16_of_int v) = v)
     \<and> uint16_of_int 65536 = 0"
proof -
  let ?rows = "content_points (data (w (actor b)))"
  have v: "np_vectorize mapping_get (map semantic_id ?rows)
             = Inr (IntArray (map (the \<circ> mapping_get) (map semantic_id ?rows)))"
    by (rule label_cast_of_present) (use assms in auto)
  have c: "column_stack (map uint16_of_int (map (the \<circ> mapping_get) (map semantic_id ?rows)))
             (map (uint16_of_int \<circ> instance_id) ?rows)
           = map (\<lambda>r. [uint16_of_int (the (mapping_get (semantic_id r))),
                        uint16_of_int (instance_id r)]) ?rows"
    using column_stack_map [of "\<lambda>r. uint16_of_int (the (mapping_get (semantic_id r)))" ?rows
                               "uint16_of_int \<circ> instance_id"]
    by (simp add: comp_def)
  have run: "fst (dump_semantic_lidar env w self b) = None
     \<and> disk (snd (dump_semantic_lidar env w self b))
         (path_join (current_sequence_path self)
            [labels_path b, current_frame_name self @ ''.label''])
       = Some (UInt16File
           (map (\<lambda>r. [uint16_of_int (the (mapping_get (semantic_id r))),
                       uint16_of_int (instance_id r)]) ?rows))"
    using v c by (simp add: dump_semantic_lidar_def Let_def)
  have wrap: "uint16_of_int 65536 = 0"
    by (simp add: uint16_of_int_def)
  show ?thesis
    using run wrap by (simp add: uint_uint16_of_int)
qed

theorem label_rows_are_uint16_casts_witness:
  "uint (uint16_of_int 70000) = 4464
   \<and> disk (snd (dump_semantic_lidar plain_collaborators
        (\<lambda>s. plain_view 0 [lidar_point 21 65536, lidar_point 14 65535])
        (new_dumper ''seq'') (SemanticLidarBind 3 ''velodyne'' ''labels'')))
       ''seq/labels/000000.label''
     = Some (UInt16File [[259, 0], [10, 65535]])"
  using label_rows_are_uint16_casts [of
        "\<lambda>s. plain_view 0 [lidar_point 21 65536, lidar_point 14 65535]"
        "SemanticLidarBind 3 ''velodyne'' ''labels''" plain_collaborators "new_dumper ''seq''"]
  by (simp add: mapping_get_def MAPPING_SEG_CARLA_TO_KITTI_def new_dumper_def
        current_frame_name_def path_join_def join_step_def zero_pad_def dec_digits_small
        digit_char_def replicate_numeral uint16_of_int_def plain_view_def lidar_point_def)

section \<open>The first frame needs a calibration bind and a pose bind\<close>

lemma find_None_set: "find P xs = None \<longleftrightarrow> (\<forall>x\<in>set xs. \<not> P x)"
  by (auto simp: find_None_iff)

text \<open>
  C6. When \<open>create_frame\<close> opens frame 1 and the registry holds no calibration bind or
  no pose bind, it raises the configuration error; at the raise no task has been
  submitted and the disk is untouched.
\<close>

theorem first_frame_without_binds_fails:
  assumes "current_frame_count self = 0"
      and "(\<forall>b\<in>set (binds self). \<not> is_CalibTrBind b) \<or> (\<forall>b\<in>set (binds self). \<not> is_PoseBind b)"
  shows "create_frame self
           = (Some (ValueError ''Calib bind or pose bind not found''),
              self\<lparr>current_frame_count := 1, promises := [],
                    timestamp_offset := None, pose_offset := None\<rparr>)"
proof -
  from assms(2)
  have "find is_CalibTrBind (binds self) = None \<or> find is_PoseBind (binds self) = None"
    by (simp add: find_None_set)
  then show ?thesis
    using assms(1)
    by (auto simp: create_frame_def setup_calib_file_def Let_def split: option.splits)
qed

theorem first_frame_without_binds_fails_witness:
  "fst (create_frame
          ((new_dumper ''seq'')\<lparr>binds := [TimestampBind 0 ''times.txt'', PoseBind 1 ''poses.txt'']\<rparr>))
     = Some (ValueError ''Calib bind or pose bind not found'')
   \<and> promises (snd (create_frame
          ((new_dumper ''seq'')\<lparr>binds := [TimestampBind 0 ''times.txt'', PoseBind 1 ''poses.txt'']\<rparr>)))
     = []"
  using first_frame_without_binds_fails
    [of "(new_dumper ''seq'')\<lparr>binds := [TimestampBind 0 ''times.txt'', PoseBind 1 ''poses.txt'']\<rparr>"]
  by (simp add: new_dumper_def)

text \<open>
  C5, as the code has it. The registry sets no limit on calibration or pose binds:
  \<open>bind_pose\<close> and \<open>bind_calib\<close> append the new bind whatever the registry already
  holds, provided the path has an extension. \<open>_setup_calib_file\<close> fails when the
  registry has no calibration bind or no pose bind, and otherwise submits the
  calibration task for the first bind of each kind.
\<close>

theorem registry_keeps_every_calib_and_pose_bind:
  "(snd (splitext file_path) \<noteq> [] \<longrightarrow>
      bind_pose sensor file_path self
        = (None, self\<lparr>binds := binds self @ [PoseBind sensor file_path]\<rparr>)
    \<and> bind_calib sensor file_path self
        = (None, self\<lparr>binds := binds self @ [CalibTrBind sensor file_path]\<rparr>))
 \<and> ((\<forall>b\<in>set (binds self). \<not> is_CalibTrBind b) \<or> (\<forall>b\<in>set (binds self). \<not> is_PoseBind b) \<longrightarrow>
      setup_calib_file self = (Some (ValueError ''Calib bind or pose bind not found''), self))
 \<and> (\<forall>c p. find is_CalibTrBind (binds self) = Some c \<and> find is_PoseBind (binds self) = Some p \<longrightarrow>
      setup_calib_file self = (None, self\<lparr>promises := promises self @ [Dump_calib c p]\<rparr>))"
proof -
  have a: "setup_calib_file self = (Some (ValueError ''Calib bind or pose bind not found''), self)"
    if "(\<forall>b\<in>set (binds self). \<not> is_CalibTrBind b) \<or> (\<forall>b\<in>set (binds self). \<not> is_PoseBind b)"
  proof -
    from that
    have "find is_CalibTrBind (binds self) = None \<or> find is_PoseBind (binds self) = None"
      by (simp add: find_None_set)
    then show ?thesis
      by (auto simp: setup_calib_file_def split: option.splits)
  qed
  show ?thesis
    using a by (simp add: bind_pose_def bind_calib_def setup_calib_file_def)
qed

theorem registry_keeps_every_calib_and_pose_bind_witness:
  "binds (snd (bind_pose 2 ''poses_b.txt''
       ((new_dumper ''seq'')\<lparr>binds := [PoseBind 1 ''poses_a.txt'', CalibTrBind 3 ''calib.txt'']\<rparr>)))
     = [PoseBind 1 ''poses_a.txt'', CalibTrBind 3 ''calib.txt'', PoseBind 2 ''poses_b.txt'']
   \<and> setup_calib_file (new_dumper ''seq'')
       = (Some (ValueError ''Calib bind or pose bind not found''), new_dumper ''seq'')
   \<and> promises (snd (setup_calib_file
       ((new_dumper ''seq'')\<lparr>binds := [PoseBind 1 ''poses_a.txt'', CalibTrBind 3 ''calib.txt'',
                                       PoseBind 2 ''poses_b.txt'']\<rparr>)))
     = [Dump_calib (CalibTrBind 3 ''calib.txt'') (PoseBind 1 ''poses_a.txt'')]"
  using registry_keeps_every_calib_and_pose_bind [of "''poses_b.txt''" 2
          "(new_dumper ''seq'')\<lparr>binds := [PoseBind 1 ''poses_a.txt'', CalibTrBind 3 ''calib.txt'']\<rparr>"]
        registry_keeps_every_calib_and_pose_bind [of "''poses_b.txt''" 2 "new_dumper ''seq''"]
        registry_keeps_every_calib_and_pose_bind [of "''poses_b.txt''" 2
          "(new_dumper ''seq'')\<lparr>binds := [PoseBind 1 ''poses_a.txt'', CalibTrBind 3 ''calib.txt'',
                                          PoseBind 2 ''poses_b.txt'']\<rparr>"]
  by (simp add: splitext_eval new_dumper_def)

text \<open>
  A second pose bind and a second calibration bind are registered like the first:
  nothing is raised and the registry holds both.
\<close>

theorem second_pose_and_calib_bind_accepted:
  "bind_pose 2 ''poses_b.txt'' (snd (bind_pose 1 ''poses_a.txt'' (new_dumper ''seq'')))
     = (None, (new_dumper ''seq'')\<lparr>binds := [PoseBind 1 ''poses_a.txt'', PoseBind 2 ''poses_b.txt'']\<rparr>)
   \<and> bind_calib 4 ''calib_b.txt'' (snd (bind_calib 3 ''calib_a.txt'' (new_dumper ''seq'')))
     = (None, (new_dumper ''seq'')\<lparr>binds := [CalibTrBind 3 ''calib_a.txt'',
                                             CalibTrBind 4 ''calib_b.txt'']\<rparr>)"
  by (simp add: bind_pose_def bind_calib_def splitext_eval new_dumper_def)

section \<open>Folders and files at sequence start\<close>



section \<open>The intrinsic matrix\<close>

lemma np_identity_3: "np_identity 3 = [[1, 0, 0], [0, 1, 0], [0, 0, 1]]"
  by (simp add: np_identity_def upt_conv_Cons numeral_3_eq_3)

text \<open>
  C8. For a camera of width \<open>w\<close>, height \<open>h\<close> and field of view \<open>fov_deg\<close> degrees
  (with a tangent of the half angle other than zero, so that the focal length is a
  number), the intrinsic matrix has \<open>w / (2 tan (fov_deg \<pi> / 360))\<close> at both focal
  positions, the principal point \<open>(w / 2, h / 2)\<close>, 1 in the corner and 0 elsewhere.
  Reals stand for the floats.
\<close>

theorem intrinsic_matrix_formula:
  assumes "tan (fov_deg * pi / 360) \<noteq> 0"
  shows "compute_intrinsic_matrix w h fov_deg
           = [[of_int w / (2 * tan (fov_deg * pi / 360)), 0, of_int w / 2],
              [0, of_int w / (2 * tan (fov_deg * pi / 360)), of_int h / 2],
              [0, 0, 1]]"
  by (simp add: compute_intrinsic_matrix_def np_identity_3 set_item_def Let_def)

lemma tan_quarter: "tan (90 * pi / 360) = 1"
proof -
  have "(90 * pi / 360 :: real) = pi / 4" by simp
  then show ?thesis by (simp only: tan_45)
qed

theorem intrinsic_matrix_formula_witness:
  "tan (90 * pi / 360) \<noteq> 0
   \<and> compute_intrinsic_matrix 1280 720 90
       = [[1280 / (2 * tan (90 * pi / 360)), 0, 640],
          [0, 1280 / (2 * tan (90 * pi / 360)), 360], [0, 0, 1]]
   \<and> compute_intrinsic_matrix 1280 720 90 = [[640, 0, 640], [0, 640, 360], [0, 0, 1]]"
proof -
  have t: "tan (90 * pi / 360) \<noteq> 0"
    by (simp only: tan_quarter one_neq_zero not_False_eq_True)
  from intrinsic_matrix_formula [OF t, of 1280 720] show ?thesis
    using t by (simp add: tan_45)
qed

section \<open>The calibration file\<close>




















section \<open>The timestamp file\<close>



lemma read_text_append: "read_text (append_text p s d) p = read_text d p @ s"
  by (simp add: append_text_def read_text_def)


























section \<open>The pose file\<close>

text \<open>
  What \<open>_dump_pose\<close> itself fixes, whatever the geometry classes compute: the first
  pose task of a sequence stores the orientation-changed transform of its own sample as
  the origin and writes that transform composed against itself; a later task writes its
  orientation-changed transform composed against the stored origin and leaves the
  origin alone; and the origin is a function of the first sample only, so deriving it
  again from that sample gives the same origin.
\<close>

lemma pose_line_first_frame:
  assumes "pose_offset self = None"
  shows "dump_pose env w self b
     = (None, self\<lparr>pose_offset := Some (transform (data (w (actor b)))),
          pose_offset_coordinate :=
            Some (change_orientation env CARLA_CAM_TO_KITTI_CAM_ORIENTATION
                    (transform (data (w (actor b))))),
          disk := append_text (path_join (current_sequence_path self) [data_path b])
            (matrix_line 6 (top_rows (apply_transform env
                (change_orientation env CARLA_CAM_TO_KITTI_CAM_ORIENTATION
                   (transform (data (w (actor b)))))
                (change_orientation env CARLA_CAM_TO_KITTI_CAM_ORIENTATION
                   (transform (data (w (actor b)))))))
             @ [CHR 0x0A]) (disk self)\<rparr>)"
  using assms by (simp add: dump_pose_def Let_def)

lemma pose_line_later_frame:
  assumes "pose_offset self = Some first_pose" and "pose_offset_coordinate self = Some origin"
  shows "dump_pose env w self b
     = (None, self\<lparr>disk := append_text (path_join (current_sequence_path self) [data_path b])
            (matrix_line 6 (top_rows (apply_transform env
                (change_orientation env CARLA_CAM_TO_KITTI_CAM_ORIENTATION
                   (transform (data (w (actor b)))))
                origin))
             @ [CHR 0x0A]) (disk self)\<rparr>)"
  using assms by (simp add: dump_pose_def Let_def)

lemma pose_origin_from_first_sample:
  "pose_offset_coordinate (snd (dump_pose env w (self\<lparr>pose_offset := None\<rparr>) b))
     = Some (change_orientation env CARLA_CAM_TO_KITTI_CAM_ORIENTATION
               (transform (data (w (actor b)))))"
  by (simp add: dump_pose_def Let_def)

end
